theory Spec2Isabelle
  imports Complex_Main
begin

section \<open>Python values\<close>

text \<open>
  A float is a finite value (given by the real number it denotes), negative zero, an
  infinity or not-a-number. The finite values of the model are all reals, of which the
  doubles are some: what the model takes from IEEE 754 beyond the order of the values is
  a parameter (\<open>float_ops\<close> below).
\<close>

datatype pyfloat = Fin real | NegZero | PosInf | NegInf | NaN

text \<open>The double \<open>m / 2^k\<close>, for writing float literals exactly.\<close>

definition double :: "int \<Rightarrow> nat \<Rightarrow> pyfloat" where
  "double m k = Fin (of_int m / 2 ^ k)"

text \<open>The float that the literal \<^verbatim>\<open>0.3\<close> denotes (0.299999999999999988897769753748...).\<close>

definition float_0_3 :: pyfloat where
  "float_0_3 = double 5404319552844595 54"

text \<open>
  The order of the floats: the infinities below and above every finite value, both zeros
  equal, and no comparison with not-a-number holds.
\<close>

fun float_rank :: "pyfloat \<Rightarrow> (int \<times> real) option" where
  "float_rank (Fin r) = Some (0, r)"
| "float_rank NegZero = Some (0, 0)"
| "float_rank PosInf = Some (1, 0)"
| "float_rank NegInf = Some (- 1, 0)"
| "float_rank NaN = None"

definition float_le :: "pyfloat \<Rightarrow> pyfloat \<Rightarrow> bool" where
  "float_le x y =
     (case float_rank x of
        None \<Rightarrow> False
      | Some (a, r) \<Rightarrow>
          (case float_rank y of None \<Rightarrow> False | Some (b, s) \<Rightarrow> a < b \<or> (a = b \<and> r \<le> s)))"

definition float_lt :: "pyfloat \<Rightarrow> pyfloat \<Rightarrow> bool" where
  "float_lt x y =
     (case float_rank x of
        None \<Rightarrow> False
      | Some (a, r) \<Rightarrow>
          (case float_rank y of None \<Rightarrow> False | Some (b, s) \<Rightarrow> a < b \<or> (a = b \<and> r < s)))"

text \<open>
  The operations of float arithmetic that the model takes as given: the product of two
  floats (the exact product rounded to the nearest double), the conversion of an integer
  of magnitude above \<open>2^53\<close> (rounded; \<open>None\<close> when Python raises OverflowError), and
  \<^verbatim>\<open>str\<close> of a float (the shortest decimal that reads back as the same double).
\<close>

record float_ops =
  fl_mul :: "pyfloat \<Rightarrow> pyfloat \<Rightarrow> pyfloat"
  fl_of_big_int :: "int \<Rightarrow> pyfloat option"
  fl_str :: "pyfloat \<Rightarrow> string"

text \<open>
  The decision configuration is an untyped mapping (\<^verbatim>\<open>decision_conf.get(key, default)\<close>),
  so what it stores is a dynamically typed Python value. The scalars a configuration file
  holds are modelled; an int is an unbounded integer.
\<close>

datatype pyval = PNone | PBool bool | PInt int | PFloat pyfloat | PStr string

datatype py_error = TypeError | OverflowError | ValueError

text \<open>Truth value testing, as \<^verbatim>\<open>not x\<close> and \<^verbatim>\<open>x and y\<close> apply it.\<close>

fun truthy :: "pyval \<Rightarrow> bool" where
  "truthy PNone = False"
| "truthy (PBool b) = b"
| "truthy (PInt i) = (i \<noteq> 0)"
| "truthy (PFloat x) = (x \<noteq> Fin 0 \<and> x \<noteq> NegZero)"
| "truthy (PStr s) = (s \<noteq> [])"

text \<open>
  The float a number is converted to, in a product with a float and in a float format
  (bool is a subclass of int; an integer up to \<open>2^53\<close> in magnitude is a double);
  TypeError for None and for a string.
\<close>

fun py_float :: "float_ops \<Rightarrow> pyval \<Rightarrow> py_error + pyfloat" where
  "py_float fl (PFloat x) = Inr x"
| "py_float fl (PBool b) = Inr (Fin (if b then 1 else 0))"
| "py_float fl (PInt i) =
     (if \<bar>i\<bar> \<le> 2 ^ 53 then Inr (Fin (of_int i))
      else case fl_of_big_int fl i of None \<Rightarrow> Inl OverflowError | Some x \<Rightarrow> Inr x)"
| "py_float fl PNone = Inl TypeError"
| "py_float fl (PStr s) = Inl TypeError"

text \<open>The value a number has in a comparison with a float: an integer is compared
  exactly, without conversion. \<open>None\<close> where the comparison raises TypeError.\<close>

fun cmp_val :: "pyval \<Rightarrow> pyfloat option" where
  "cmp_val (PFloat x) = Some x"
| "cmp_val (PBool b) = Some (Fin (if b then 1 else 0))"
| "cmp_val (PInt i) = Some (Fin (of_int i))"
| "cmp_val PNone = None"
| "cmp_val (PStr s) = None"

text \<open>A value is a number that converts to a float without change: a float, a bool, or
  an integer that is a double.\<close>

definition exact_float :: "float_ops \<Rightarrow> pyval \<Rightarrow> pyfloat option" where
  "exact_float fl v =
     (case py_float fl v of
        Inl e \<Rightarrow> None
      | Inr x \<Rightarrow> if cmp_val v = Some x then Some x else None)"

text \<open>Sequencing of computations that may raise.\<close>

definition bind_err :: "py_error + 'a \<Rightarrow> ('a \<Rightarrow> py_error + 'b) \<Rightarrow> py_error + 'b" where
  "bind_err m f = (case m of Inl e \<Rightarrow> Inl e | Inr v \<Rightarrow> f v)"

text \<open>\<^verbatim>\<open>v * c\<close> for a float literal \<open>c\<close>.\<close>

definition py_mul_float :: "float_ops \<Rightarrow> pyval \<Rightarrow> pyfloat \<Rightarrow> py_error + pyval" where
  "py_mul_float fl v c = bind_err (py_float fl v) (\<lambda>x. Inr (PFloat (fl_mul fl x c)))"

text \<open>\<^verbatim>\<open>x >= v\<close> and \<^verbatim>\<open>x < v\<close> for a float \<open>x\<close>.\<close>

definition py_ge :: "pyfloat \<Rightarrow> pyval \<Rightarrow> py_error + bool" where
  "py_ge x v = (case cmp_val v of None \<Rightarrow> Inl TypeError | Some t \<Rightarrow> Inr (float_le t x))"

definition py_lt :: "pyfloat \<Rightarrow> pyval \<Rightarrow> py_error + bool" where
  "py_lt x v = (case cmp_val v of None \<Rightarrow> Inl TypeError | Some t \<Rightarrow> Inr (float_lt x t))"

section \<open>String formatting\<close>

text \<open>Decimal digits of a natural number, as \<^verbatim>\<open>str\<close> prints them.\<close>

definition digit_char :: "nat \<Rightarrow> char" where
  "digit_char d = ''0123456789'' ! (d mod 10)"

fun str_nat :: "nat \<Rightarrow> string" where
  "str_nat n = (if n < 10 then [digit_char n] else str_nat (n div 10) @ [digit_char (n mod 10)])"

definition str_int :: "int \<Rightarrow> string" where
  "str_int i = (if i < 0 then ''-'' @ str_nat (nat (- i)) else str_nat (nat i))"

text \<open>
  Rounding to the nearest integer, ties to the even one: the rule of the format
  specification \<^verbatim>\<open>.2f\<close>, which rounds the exact value of the float correctly.
\<close>

definition round_half_even :: "real \<Rightarrow> int" where
  "round_half_even x =
     (let f = \<lfloor>x\<rfloor>; d = x - of_int f
      in if d < 1 / 2 then f else if 1 / 2 < d then f + 1 else if even f then f else f + 1)"

text \<open>\<^verbatim>\<open>f"{x:.2f}"\<close> for a float: sign, integer part, point and two digits for a finite
  value; \<^verbatim>\<open>inf\<close>, \<^verbatim>\<open>-inf\<close> and \<^verbatim>\<open>nan\<close> otherwise.\<close>

fun format_2f :: "pyfloat \<Rightarrow> string" where
  "format_2f (Fin x) =
     (let n = nat (round_half_even (\<bar>x\<bar> * 100))
      in (if x < 0 then ''-'' else '''') @ str_nat (n div 100) @ ''.'' @
         [digit_char (n div 10), digit_char n])"
| "format_2f NegZero = ''-0.00''"
| "format_2f PosInf = ''inf''"
| "format_2f NegInf = ''-inf''"
| "format_2f NaN = ''nan''"

text \<open>\<^verbatim>\<open>f"{v:.2f}"\<close> for a configuration value: a number is converted to a float and
  formatted; a string raises ValueError, None raises TypeError.\<close>

definition py_format_2f :: "float_ops \<Rightarrow> pyval \<Rightarrow> py_error + string" where
  "py_format_2f fl v =
     (case v of
        PStr s \<Rightarrow> Inl ValueError
      | _ \<Rightarrow> bind_err (py_float fl v) (\<lambda>x. Inr (format_2f x)))"

text \<open>\<^verbatim>\<open>f"{v}"\<close>, that is \<^verbatim>\<open>str(v)\<close>.\<close>

fun py_str :: "float_ops \<Rightarrow> pyval \<Rightarrow> string" where
  "py_str fl PNone = ''None''"
| "py_str fl (PBool b) = (if b then ''True'' else ''False'')"
| "py_str fl (PInt i) = str_int i"
| "py_str fl (PFloat x) = fl_str fl x"
| "py_str fl (PStr s) = s"





section \<open>Belief metrics\<close>

text \<open>The dataclass \<^verbatim>\<open>BeliefMetrics\<close>, its fields at their annotated types. The dictionary
  is a list of items, first occurrence of a key being its entry.\<close>

record BeliefMetrics =
  avg_concept_confidence :: pyfloat
  belief_divergence :: pyfloat
  divergence_metrics :: "(string \<times> pyfloat) list option"
  note_text :: string

text \<open>The dataclass defaults.\<close>

definition default_metrics :: BeliefMetrics where
  "default_metrics =
     \<lparr>avg_concept_confidence = Fin 1, belief_divergence = Fin 0, divergence_metrics = None,
      note_text = ''''\<rparr>"

text \<open>\<^verbatim>\<open>metric_type in d\<close> and \<^verbatim>\<open>d[metric_type]\<close> on a dictionary with string keys: a key
  that is not a string is not in it.\<close>

definition dict_find :: "(string \<times> pyfloat) list \<Rightarrow> pyval \<Rightarrow> pyfloat option" where
  "dict_find d k = (case k of PStr s \<Rightarrow> map_of d s | _ \<Rightarrow> None)"

text \<open>\<^verbatim>\<open>BeliefMetrics.get_divergence\<close>. \<^verbatim>\<open>float(v)\<close> of a float is \<open>v\<close>.\<close>

definition get_divergence :: "BeliefMetrics \<Rightarrow> pyval \<Rightarrow> pyfloat" where
  "get_divergence self metric_type =
     (if metric_type = PStr ''belief_divergence'' then belief_divergence self
      else case divergence_metrics self of
             None \<Rightarrow> belief_divergence self
           | Some d \<Rightarrow>
               (if d \<noteq> [] \<and> dict_find d metric_type \<noteq> None then the (dict_find d metric_type)
                else belief_divergence self))"

section \<open>The decision hook\<close>

type_synonym config = "string \<rightharpoonup> pyval"

text \<open>\<^verbatim>\<open>decision_conf.get(key, default)\<close>.\<close>

definition conf_get :: "config \<Rightarrow> string \<Rightarrow> pyval \<Rightarrow> pyval" where
  "conf_get conf key dflt = (case conf key of None \<Rightarrow> dflt | Some v \<Rightarrow> v)"

text \<open>The four reason strings.\<close>

definition correction_reason :: "string \<Rightarrow> string \<Rightarrow> string \<Rightarrow> string" where
  "correction_reason metric_name value threshold =
     ''Belief divergence ('' @ metric_name @ '') '' @ value @
     '' exceeds correction threshold '' @ threshold @ ''.''"

definition low_confidence_reason :: "string \<Rightarrow> string \<Rightarrow> string" where
  "low_confidence_reason value threshold =
     ''Average concept confidence '' @ value @ '' is below threshold '' @ threshold @ ''.''"

definition l2d_reason :: "string \<Rightarrow> string \<Rightarrow> string \<Rightarrow> string" where
  "l2d_reason metric_name value threshold =
     ''Divergence ('' @ metric_name @ '') '' @ value @ '' exceeds L2D threshold '' @
     threshold @ ''.''"

definition high_divergence_reason :: "string \<Rightarrow> string \<Rightarrow> string \<Rightarrow> string" where
  "high_divergence_reason metric_name value threshold =
     ''Belief divergence ('' @ metric_name @ '') '' @ value @ '' exceeds threshold '' @
     threshold @ ''.''"

text \<open>
  \<^verbatim>\<open>choose_belief_action(decision_conf, metrics)\<close>. The result is the pair of the action
  (\<open>PNone\<close> for no action) and the reason, or the exception raised. The default of a
  \<^verbatim>\<open>get\<close> is evaluated before the lookup, so \<^verbatim>\<open>div_threshold * 1.5\<close> raises for a
  threshold that is not a number even when the derived option is given.
\<close>

definition choose_belief_action ::
  "float_ops \<Rightarrow> config option \<Rightarrow> BeliefMetrics \<Rightarrow> py_error + (pyval \<times> string)" where
  "choose_belief_action fl decision_conf metrics =
     (case decision_conf of
        None \<Rightarrow> Inr (PNone, '''')
      | Some conf \<Rightarrow>
          if \<not> truthy (conf_get conf ''cbwm_enabled'' (PBool True))
          then Inr (PNone, ''CBWM hooks disabled.'')
          else
            let divergence_metric_type =
                  conf_get conf ''divergence_metric_type'' (PStr ''belief_divergence'');
                active_divergence = get_divergence metrics divergence_metric_type;
                div_threshold = conf_get conf ''divergence_threshold'' (PFloat float_0_3)
            in
            bind_err (py_mul_float fl div_threshold (Fin 1.5)) (\<lambda>correction_default.
            let correction_threshold =
                  conf_get conf ''correction_divergence_threshold'' correction_default;
                confidence_threshold =
                  conf_get conf ''concept_confidence_threshold'' (PFloat (Fin 0.5))
            in
            bind_err (py_mul_float fl div_threshold (Fin 0.5)) (\<lambda>l2d_default.
            let l2d_threshold = conf_get conf ''l2d_divergence_threshold'' l2d_default;
                l2d_enabled = conf_get conf ''l2d_action_enabled'' (PBool False)
            in
            bind_err (py_ge active_divergence correction_threshold) (\<lambda>above_correction.
            if above_correction then
              bind_err (py_format_2f fl correction_threshold) (\<lambda>shown.
              Inr (conf_get conf ''correction_action'' (PStr ''CorrectHuman''),
                   correction_reason (py_str fl divergence_metric_type)
                     (format_2f active_divergence) shown))
            else
            bind_err (py_lt (avg_concept_confidence metrics) confidence_threshold)
              (\<lambda>below_confidence.
            if below_confidence then
              bind_err (py_format_2f fl confidence_threshold) (\<lambda>shown.
              Inr (conf_get conf ''low_confidence_action'' (PStr ''AppendObservation''),
                   low_confidence_reason (format_2f (avg_concept_confidence metrics)) shown))
            else
            bind_err (if truthy l2d_enabled then py_ge active_divergence l2d_threshold
                      else Inr False) (\<lambda>l2d_fires.
            if l2d_fires then
              bind_err (py_format_2f fl l2d_threshold) (\<lambda>shown.
              Inr (conf_get conf ''l2d_action'' (PStr ''LookToDisambiguate''),
                   l2d_reason (py_str fl divergence_metric_type)
                     (format_2f active_divergence) shown))
            else
            bind_err (py_ge active_divergence div_threshold) (\<lambda>above_threshold.
            if above_threshold then
              bind_err (py_format_2f fl div_threshold) (\<lambda>shown.
              Inr (conf_get conf ''high_divergence_action'' (PStr ''AskHuman''),
                   high_divergence_reason (py_str fl divergence_metric_type)
                     (format_2f active_divergence) shown))
            else Inr (PNone, note_text metrics))))))))"

text \<open>An option of the configuration, or its default when the option is missing.\<close>

definition or_default :: "pyval option \<Rightarrow> pyval \<Rightarrow> pyval" where
  "or_default stored dflt = (case stored of None \<Rightarrow> dflt | Some v \<Rightarrow> v)"

text \<open>
  Float arithmetic on the values of the examples: the products are the doubles that
  Python computes (\<^verbatim>\<open>0.3 * 1.5\<close> is 0.44999999999999996, \<^verbatim>\<open>0.3 * 0.5\<close> is 0.15,
  \<^verbatim>\<open>0.4 * 1.5\<close> is 0.6000000000000001, \<^verbatim>\<open>0.4 * 0.5\<close> is 0.2). No other product, no
  conversion of a large integer and no \<^verbatim>\<open>str\<close> of a float is used by the examples.
\<close>

definition sample_floats :: float_ops where
  "sample_floats =
     \<lparr>fl_mul = (\<lambda>x y.
         if x = float_0_3 \<and> y = Fin 1.5 then double 2026619832316723 52
         else if x = float_0_3 \<and> y = Fin 0.5 then double 5404319552844595 55
         else if x = double 3602879701896397 53 \<and> y = Fin 1.5 then double 1351079888211149 51
         else if x = double 3602879701896397 53 \<and> y = Fin 0.5 then double 3602879701896397 54
         else NaN),
       fl_of_big_int = (\<lambda>i. None),
       fl_str = (\<lambda>x. [])\<rparr>"

section \<open>Concept mapping\<close>

text \<open>
  Modelled from the spec: the class \<^verbatim>\<open>MetadataInterface\<close> is imported from
  \<^verbatim>\<open>habitat_llm.sims.metadata_interface\<close>, which is not among the sources. The mapper
  reads only its \<^verbatim>\<open>lexicon\<close>, the collection of known categories a detected type is
  looked up in.
\<close>

record MetadataInterface =
  lexicon :: "string list"

text \<open>\<^verbatim>\<open>map_detection_to_concepts(detected_type, metadata)\<close>.\<close>

definition map_detection_to_concepts ::
  "string option \<Rightarrow> MetadataInterface option \<Rightarrow> string list \<times> real list" where
  "map_detection_to_concepts detected_type metadata =
     (case detected_type of
        None \<Rightarrow> ([], [])
      | Some t \<Rightarrow>
          let labels = [t]; confidences = [1.0]
          in case metadata of
               None \<Rightarrow> (labels, confidences)
             | Some md \<Rightarrow>
                 if t \<notin> set (lexicon md) then (labels @ [''unknown''], confidences @ [0.1])
                 else (labels, confidences))"

section \<open>The concept layer of the world graph\<close>

text \<open>
  Modelled from the spec: \<^verbatim>\<open>habitat_llm.world_model.world_graph\<close> and
  \<^verbatim>\<open>habitat_llm.world_model.entity\<close> are not among the sources; only the test
  \<^verbatim>\<open>test_concept_layer.py\<close> is. A node is an entity or a Concept node, each with an
  identifier.
\<close>

datatype node = Entity nat | Concept nat

fun is_concept :: "node \<Rightarrow> bool" where
  "is_concept (Concept _) = True"
| "is_concept (Entity _) = False"

text \<open>
  Modelled from the spec: the world graph. \<open>graph\<close> is the adjacency structure the test
  reads (\<^verbatim>\<open>wg.graph[concept_node][obj] == "describes"\<close>): each node with its outgoing
  edges, target and label. The two other fields are the properties \<^verbatim>\<open>concept_labels\<close>
  and \<^verbatim>\<open>concept_confidence\<close> of each entity.
\<close>

record world_graph =
  graph :: "(node \<times> (node \<times> string) list) list"
  concept_labels :: "node \<rightharpoonup> string list"
  concept_confidence :: "node \<rightharpoonup> real list"

text \<open>Modelled from the spec: there is an edge labelled "describes" from \<open>c\<close> to \<open>e\<close>.\<close>

definition describes :: "world_graph \<Rightarrow> node \<Rightarrow> node \<Rightarrow> bool" where
  "describes wg c e =
     (case map_of (graph wg) c of None \<Rightarrow> False | Some adj \<Rightarrow> map_of adj e = Some ''describes'')"

text \<open>Modelled from the spec: the Concept nodes of the graph that describe an entity.\<close>

definition concept_nodes_of :: "world_graph \<Rightarrow> node \<Rightarrow> node list" where
  "concept_nodes_of wg e = filter (\<lambda>c. is_concept c \<and> describes wg c e) (map fst (graph wg))"

text \<open>Modelled from the spec: a Concept node whose identifier no Concept node of the graph
  has ("create one").\<close>

fun next_after :: "node \<Rightarrow> nat" where
  "next_after (Concept i) = Suc i"
| "next_after (Entity _) = 0"

definition fresh_concept :: "world_graph \<Rightarrow> node" where
  "fresh_concept wg = Concept (fold max (map (next_after \<circ> fst) (graph wg)) 0)"

text \<open>
  Modelled from the spec: \<^verbatim>\<open>addOrUpdateConceptAnnotation(entity, labels, confidences)\<close>.
  It replaces the two properties of the entity; if no Concept node exists for the entity
  it creates one with a "describes" edge to the entity, otherwise it reuses the existing
  one; it returns the Concept node (and, here, the graph after the call).
\<close>

definition add_or_update_concept_annotation ::
  "world_graph \<Rightarrow> node \<Rightarrow> string list \<Rightarrow> real list \<Rightarrow> node \<times> world_graph" where
  "add_or_update_concept_annotation wg entity labels confidences =
     (let wg1 = wg\<lparr>concept_labels := (concept_labels wg)(entity \<mapsto> labels),
                   concept_confidence := (concept_confidence wg)(entity \<mapsto> confidences)\<rparr>
      in case concept_nodes_of wg1 entity of
           c # _ \<Rightarrow> (c, wg1)
         | [] \<Rightarrow>
             let c = fresh_concept wg1
             in (c, wg1\<lparr>graph := graph wg1 @ [(c, [(entity, ''describes'')])]\<rparr>))"

text \<open>The graph of the test: one object node, no edge, no annotation.\<close>

definition graph_with_object :: world_graph where
  "graph_with_object =
     \<lparr>graph = [(Entity 0, [])], concept_labels = Map.empty, concept_confidence = Map.empty\<rparr>"

section \<open>The log reader\<close>

text \<open>A JSON value, as \<^verbatim>\<open>json.loads\<close> returns it; a dict is a \<open>JObject\<close>.\<close>

datatype json =
  JNull | JBool bool | JNumber real | JString string | JArray "json list"
  | JObject "(string \<times> json) list"

fun is_dict :: "json \<Rightarrow> bool" where
  "is_dict (JObject _) = True"
| "is_dict _ = False"

text \<open>\<^verbatim>\<open>str.strip()\<close>: leading and trailing whitespace removed. A character is
  its code point, below 256: the whitespace characters there are those of ASCII,
  U+0085 and U+00A0.\<close>

definition is_space :: "char \<Rightarrow> bool" where
  "is_space c =
     (c \<in> set [CHR '' '', CHR 0x09, CHR 0x0A, CHR 0x0B, CHR 0x0C, CHR 0x0D,
                CHR 0x1C, CHR 0x1D, CHR 0x1E, CHR 0x1F, CHR 0x85, CHR 0xA0])"

definition strip :: "string \<Rightarrow> string" where
  "strip s = rev (dropWhile is_space (rev (dropWhile is_space s)))"

text \<open>
  An open text file: its lines (each with its line end) and the lines after the current
  position. \<^verbatim>\<open>for line in f\<close> takes the next unread line; \<^verbatim>\<open>f.seek(0)\<close> moves to the
  start; \<^verbatim>\<open>f.read()\<close>, which \<^verbatim>\<open>json.load(f)\<close> calls first, returns the rest and leaves
  the position at the end.
\<close>

record text_file =
  file_lines :: "string list"
  unread :: "string list"

definition open_file :: "string list \<Rightarrow> text_file" where
  "open_file ls = \<lparr>file_lines = ls, unread = ls\<rparr>"

definition seek_start :: "text_file \<Rightarrow> text_file" where
  "seek_start f = f\<lparr>unread := file_lines f\<rparr>"

definition read_rest :: "text_file \<Rightarrow> string \<times> text_file" where
  "read_rest f = (concat (unread f), f\<lparr>unread := []\<rparr>)"

definition next_line :: "text_file \<Rightarrow> (string \<times> text_file) option" where
  "next_line f = (case unread f of [] \<Rightarrow> None | l # ls \<Rightarrow> Some (l, f\<lparr>unread := ls\<rparr>))"

text \<open>
  The loop of \<^verbatim>\<open>_iter_json_records\<close> over one file, the records it yields in order.
  \<open>loads\<close> is \<^verbatim>\<open>json.loads\<close>, \<open>None\<close> for \<^verbatim>\<open>JSONDecodeError\<close>. After a line that does
  not parse the whole file is read and parsed: on success its records are yielded and
  the loop is left (\<^verbatim>\<open>break\<close>); on failure the loop goes on (\<^verbatim>\<open>continue\<close>) with the file
  as the read has left it.
\<close>

function iter_file :: "(string \<Rightarrow> json option) \<Rightarrow> text_file \<Rightarrow> json list" where
  "iter_file loads f =
     (case next_line f of
        None \<Rightarrow> []
      | Some (line, f1) \<Rightarrow>
          let line = strip line
          in if line = [] then iter_file loads f1
             else case loads line of
                    Some item \<Rightarrow> item # iter_file loads f1
                  | None \<Rightarrow>
                      (case read_rest (seek_start f1) of (text, f2) \<Rightarrow>
                         (case loads text of
                            None \<Rightarrow> iter_file loads f2
                          | Some payload \<Rightarrow>
                              (case payload of
                                 JArray items \<Rightarrow> filter is_dict items
                               | JObject _ \<Rightarrow> [payload]
                               | _ \<Rightarrow> []))))"
  by pat_completeness auto
termination
  by (relation "measure (\<lambda>(loads, f). length (unread f))")
    (auto simp: next_line_def read_rest_def seek_start_def split: list.splits)

declare iter_file.simps [simp del]

text \<open>\<^verbatim>\<open>_iter_json_records(paths)\<close>, each path given by the lines of its file.\<close>

definition iter_json_records :: "(string \<Rightarrow> json option) \<Rightarrow> string list list \<Rightarrow> json list" where
  "iter_json_records loads paths = concat (map (\<lambda>ls. iter_file loads (open_file ls)) paths)"

text \<open>The two checks of \<^verbatim>\<open>main\<close> before plotting.\<close>

datatype main_error = FileNotFoundError | ValueError

definition main_records ::
  "(string \<Rightarrow> json option) \<Rightarrow> string list list \<Rightarrow> main_error + json list" where
  "main_records loads files =
     (if files = [] then Inl FileNotFoundError
      else let records = iter_json_records loads files
           in if records = [] then Inl ValueError else Inr records)"

text \<open>A log of three lines, the second malformed, and \<^verbatim>\<open>json.loads\<close> on the strings of
  this log: the first and the third line parse, the second line and the whole file do
  not.\<close>

definition sample_log :: "string list" where
  "sample_log = [''{\"a\": 1}\<newline>'', ''oops\<newline>'', ''{\"b\": 2}\<newline>'']"

definition sample_loads :: "string \<Rightarrow> json option" where
  "sample_loads s =
     (if s = ''{\"a\": 1}'' then Some (JObject [(''a'', JNumber 1)])
      else if s = ''{\"b\": 2}'' then Some (JObject [(''b'', JNumber 2)])
      else None)"

section \<open>Properties of the divergence lookup\<close>

text \<open>
  C2. For every metrics snapshot, \<open>get_divergence\<close> of the name \<open>belief_divergence\<close> is
  the scalar field, whatever entry of that name the dictionary of named metrics holds; for
  any other name that the dictionary holds it is that entry; for a name that the
  dictionary does not hold (or when there is no dictionary) it is the scalar field. The
  function is total: it returns a float in every case.
\<close>

theorem get_divergence_cases:
  "get_divergence m (PStr ''belief_divergence'') = belief_divergence m
   \<and> (name \<noteq> ''belief_divergence'' \<and> divergence_metrics m = Some d \<and> map_of d name = Some v
        \<longrightarrow> get_divergence m (PStr name) = v)
   \<and> (name \<noteq> ''belief_divergence'' \<and> divergence_metrics m = Some d \<and> map_of d name = None
        \<longrightarrow> get_divergence m (PStr name) = belief_divergence m)
   \<and> (divergence_metrics m = None \<longrightarrow> get_divergence m (PStr name) = belief_divergence m)"
  by (auto simp: get_divergence_def dict_find_def)

theorem get_divergence_cases_witness:
  "get_divergence
     \<lparr>avg_concept_confidence = Fin 1, belief_divergence = double 3602879701896397 54,
      divergence_metrics = Some [(''belief_divergence'', double 3152519739159347 52),
        (''concept_js_divergence'', double 3602879701896397 53)],
      note_text = ''''\<rparr> (PStr ''belief_divergence'') = double 3602879701896397 54
   \<and> get_divergence
     \<lparr>avg_concept_confidence = Fin 1, belief_divergence = double 3602879701896397 54,
      divergence_metrics = Some [(''belief_divergence'', double 3152519739159347 52),
        (''concept_js_divergence'', double 3602879701896397 53)],
      note_text = ''''\<rparr> (PStr ''concept_js_divergence'') = double 3602879701896397 53
   \<and> get_divergence
     \<lparr>avg_concept_confidence = Fin 1, belief_divergence = double 3602879701896397 54,
      divergence_metrics = Some [(''belief_divergence'', double 3152519739159347 52),
        (''concept_js_divergence'', double 3602879701896397 53)],
      note_text = ''''\<rparr> (PStr ''kl'') = double 3602879701896397 54
   \<and> get_divergence
     \<lparr>avg_concept_confidence = Fin 1, belief_divergence = double 3602879701896397 54,
      divergence_metrics = None, note_text = ''''\<rparr> (PStr ''kl'') = double 3602879701896397 54"
  using
    get_divergence_cases [of
      "\<lparr>avg_concept_confidence = Fin 1, belief_divergence = double 3602879701896397 54,
        divergence_metrics = Some [(''belief_divergence'', double 3152519739159347 52),
          (''concept_js_divergence'', double 3602879701896397 53)],
        note_text = ''''\<rparr>"
      "''concept_js_divergence''"
      "[(''belief_divergence'', double 3152519739159347 52),
        (''concept_js_divergence'', double 3602879701896397 53)]"
      "double 3602879701896397 53"]
    get_divergence_cases [of
      "\<lparr>avg_concept_confidence = Fin 1, belief_divergence = double 3602879701896397 54,
        divergence_metrics = Some [(''belief_divergence'', double 3152519739159347 52),
          (''concept_js_divergence'', double 3602879701896397 53)],
        note_text = ''''\<rparr>"
      "''kl''"
      "[(''belief_divergence'', double 3152519739159347 52),
        (''concept_js_divergence'', double 3602879701896397 53)]"
      "double 3602879701896397 53"]
    get_divergence_cases [of
      "\<lparr>avg_concept_confidence = Fin 1, belief_divergence = double 3602879701896397 54,
        divergence_metrics = None, note_text = ''''\<rparr>"
      "''kl''" "[]" "Fin 0"]
  by simp

section \<open>Formatting with two decimals\<close>













section \<open>Properties of the decision hook\<close>

lemma exact_floatD:
  assumes "exact_float fl v = Some x"
  shows "py_float fl v = Inr x" and "cmp_val v = Some x" and "py_format_2f fl v = Inr (format_2f x)"
proof -
  show a: "py_float fl v = Inr x"
    using assms by (auto simp: exact_float_def split: sum.splits if_splits)
  show "cmp_val v = Some x"
    using assms by (auto simp: exact_float_def split: sum.splits if_splits)
  show "py_format_2f fl v = Inr (format_2f x)"
    using a by (cases v) (simp_all add: py_format_2f_def bind_err_def)
qed

text \<open>
  With the hooks enabled and thresholds that are numbers, the call returns, and its
  result is that of the first test of the hierarchy that succeeds.
\<close>

lemma choose_belief_action_resolved:
  assumes "truthy (conf_get conf ''cbwm_enabled'' (PBool True))"
    and "exact_float fl (conf_get conf ''divergence_threshold'' (PFloat float_0_3)) = Some dt"
    and "exact_float fl (conf_get conf ''correction_divergence_threshold''
           (PFloat (fl_mul fl dt (Fin 1.5)))) = Some ct"
    and "exact_float fl (conf_get conf ''concept_confidence_threshold'' (PFloat (Fin 0.5))) = Some cf"
    and "exact_float fl (conf_get conf ''l2d_divergence_threshold''
           (PFloat (fl_mul fl dt (Fin 0.5)))) = Some lt"
    and "mt = conf_get conf ''divergence_metric_type'' (PStr ''belief_divergence'')"
    and "ad = get_divergence m mt"
  shows "choose_belief_action fl (Some conf) m =
     Inr (if float_le ct ad then
            (conf_get conf ''correction_action'' (PStr ''CorrectHuman''),
             correction_reason (py_str fl mt) (format_2f ad) (format_2f ct))
          else if float_lt (avg_concept_confidence m) cf then
            (conf_get conf ''low_confidence_action'' (PStr ''AppendObservation''),
             low_confidence_reason (format_2f (avg_concept_confidence m)) (format_2f cf))
          else if truthy (conf_get conf ''l2d_action_enabled'' (PBool False)) \<and> float_le lt ad then
            (conf_get conf ''l2d_action'' (PStr ''LookToDisambiguate''),
             l2d_reason (py_str fl mt) (format_2f ad) (format_2f lt))
          else if float_le dt ad then
            (conf_get conf ''high_divergence_action'' (PStr ''AskHuman''),
             high_divergence_reason (py_str fl mt) (format_2f ad) (format_2f dt))
          else (PNone, note_text m))"
  using assms(1,6,7) exact_floatD [OF assms(2)] exact_floatD [OF assms(3)]
    exact_floatD [OF assms(4)] exact_floatD [OF assms(5)]
  by (simp add: choose_belief_action_def bind_err_def py_mul_float_def py_ge_def py_lt_def Let_def)

text \<open>The float arithmetic of the examples, evaluated.\<close>

lemma sample_products:
  "fl_mul sample_floats float_0_3 (Fin (3 / 2)) = double 2026619832316723 52"
  "fl_mul sample_floats float_0_3 (Fin (1 / 2)) = double 5404319552844595 55"
  "fl_mul sample_floats (double 3602879701896397 53) (Fin (3 / 2)) = double 1351079888211149 51"
  "fl_mul sample_floats (double 3602879701896397 53) (Fin (1 / 2)) = double 3602879701896397 54"
  by (simp_all add: sample_floats_def float_0_3_def double_def)

lemma exact_float_PFloat: "exact_float fl (PFloat x) = Some x"
  by (simp add: exact_float_def)

lemma format_samples:
  "format_2f (double 2026619832316723 52) = ''0.45''"
  "format_2f (double 3602879701896397 54) = ''0.20''"
  "format_2f (double 1 2) = ''0.25''"
  "format_2f (double 8106479329266893 53) = ''0.90''"
  "format_2f (double 3602879701896397 53) = ''0.40''"
  "format_2f (Fin (1 / 2)) = ''0.50''"
  by (simp_all add: double_def round_half_even_def digit_char_def Let_def)

lemma sample_orders:
  "float_le (double 2026619832316723 52) (double 2026619832316723 52)"
  "float_le (double 2026619832316723 52) (double 8106479329266893 53)"
  "\<not> float_le (double 2026619832316723 52) (Fin 0)"
  "float_lt (double 3602879701896397 53) (Fin (1 / 2))"
  "\<not> float_le (double 1351079888211149 51) (double 1 2)"
  "\<not> float_lt (Fin 1) (Fin (1 / 2))"
  "float_le (double 3602879701896397 54) (double 1 2)"
  "float_le (double 2026619832316723 52) PosInf"
  by (simp_all add: float_le_def float_lt_def double_def)

lemma sample_empty_config:
  "truthy (conf_get Map.empty ''cbwm_enabled'' (PBool True))"
  "exact_float sample_floats (conf_get Map.empty ''divergence_threshold'' (PFloat float_0_3))
     = Some float_0_3"
  "exact_float sample_floats (conf_get Map.empty ''correction_divergence_threshold''
     (PFloat (fl_mul sample_floats float_0_3 (Fin 1.5)))) = Some (double 2026619832316723 52)"
  "exact_float sample_floats (conf_get Map.empty ''concept_confidence_threshold''
     (PFloat (Fin 0.5))) = Some (Fin 0.5)"
  "exact_float sample_floats (conf_get Map.empty ''l2d_divergence_threshold''
     (PFloat (fl_mul sample_floats float_0_3 (Fin 0.5)))) = Some (double 5404319552844595 55)"
  by (simp_all add: conf_get_def exact_float_PFloat sample_products)


text \<open>
  C3. Without a configuration the result is no action and the empty reason. When
  \<open>cbwm_enabled\<close> is stored as false the result is no action and the reason
  "CBWM hooks disabled.", for every metrics snapshot and whatever the other options
  hold: no threshold is read before the test.
\<close>

theorem disabled_short_circuit:
  "choose_belief_action fl None m = Inr (PNone, '''')
   \<and> (conf ''cbwm_enabled'' = Some (PBool False)
        \<longrightarrow> choose_belief_action fl (Some conf) m = Inr (PNone, ''CBWM hooks disabled.''))"
  by (simp add: choose_belief_action_def conf_get_def)

theorem disabled_short_circuit_witness:
  "choose_belief_action sample_floats None
     \<lparr>avg_concept_confidence = double 3602879701896397 55, belief_divergence = Fin 5,
      divergence_metrics = None, note_text = ''steady''\<rparr> = Inr (PNone, '''')
   \<and> choose_belief_action sample_floats
     (Some [''cbwm_enabled'' \<mapsto> PBool False, ''divergence_threshold'' \<mapsto> PStr ''high''])
     \<lparr>avg_concept_confidence = double 3602879701896397 55, belief_divergence = Fin 5,
      divergence_metrics = None, note_text = ''steady''\<rparr> = Inr (PNone, ''CBWM hooks disabled.'')"
  using disabled_short_circuit [of sample_floats
      "\<lparr>avg_concept_confidence = double 3602879701896397 55, belief_divergence = Fin 5,
        divergence_metrics = None, note_text = ''steady''\<rparr>"
      "[''cbwm_enabled'' \<mapsto> PBool False, ''divergence_threshold'' \<mapsto> PStr ''high'']"]
  by simp

text \<open>
  C10. The test is on the truth value of what is stored under \<open>cbwm_enabled\<close>: any
  falsy value (0, the empty string, None) disables the hooks as the boolean false does.
\<close>

theorem falsy_cbwm_enabled_disables:
  assumes "conf ''cbwm_enabled'' = Some v" and "\<not> truthy v"
  shows "choose_belief_action fl (Some conf) m = Inr (PNone, ''CBWM hooks disabled.'')"
  using assms by (simp add: choose_belief_action_def conf_get_def)

theorem falsy_cbwm_enabled_disables_witness:
  "\<not> truthy (PInt 0) \<and> \<not> truthy (PStr '''') \<and> \<not> truthy PNone
   \<and> choose_belief_action sample_floats (Some [''cbwm_enabled'' \<mapsto> PInt 0])
        (default_metrics\<lparr>belief_divergence := double 8106479329266893 53\<rparr>)
       = Inr (PNone, ''CBWM hooks disabled.'')
   \<and> choose_belief_action sample_floats (Some [''cbwm_enabled'' \<mapsto> PStr ''''])
        (default_metrics\<lparr>belief_divergence := double 8106479329266893 53\<rparr>)
       = Inr (PNone, ''CBWM hooks disabled.'')
   \<and> choose_belief_action sample_floats (Some [''cbwm_enabled'' \<mapsto> PNone])
        (default_metrics\<lparr>belief_divergence := double 8106479329266893 53\<rparr>)
       = Inr (PNone, ''CBWM hooks disabled.'')"
  using
    falsy_cbwm_enabled_disables [of "[''cbwm_enabled'' \<mapsto> PInt 0]" "PInt 0" sample_floats
      "default_metrics\<lparr>belief_divergence := double 8106479329266893 53\<rparr>"]
    falsy_cbwm_enabled_disables [of "[''cbwm_enabled'' \<mapsto> PStr '''']" "PStr ''''" sample_floats
      "default_metrics\<lparr>belief_divergence := double 8106479329266893 53\<rparr>"]
    falsy_cbwm_enabled_disables [of "[''cbwm_enabled'' \<mapsto> PNone]" "PNone" sample_floats
      "default_metrics\<lparr>belief_divergence := double 8106479329266893 53\<rparr>"]
  by simp

text \<open>
  C1. The rules are tried in a fixed order and the first that matches decides:
  (a) divergence at least the correction threshold gives the correction action;
  else (b) average concept confidence below its threshold gives the low-confidence action;
  else (c) L2D enabled and divergence at least the L2D threshold gives the L2D action;
  else (d) divergence at least the divergence threshold gives the high-divergence action;
  else (e) the result is no action with the note of the metrics. Each action is the
  configured one or its default.
\<close>

theorem priority_order:
  assumes "truthy (conf_get conf ''cbwm_enabled'' (PBool True))"
    and "exact_float fl (conf_get conf ''divergence_threshold'' (PFloat float_0_3)) = Some dt"
    and "exact_float fl (conf_get conf ''correction_divergence_threshold''
           (PFloat (fl_mul fl dt (Fin 1.5)))) = Some ct"
    and "exact_float fl (conf_get conf ''concept_confidence_threshold'' (PFloat (Fin 0.5))) = Some cf"
    and "exact_float fl (conf_get conf ''l2d_divergence_threshold''
           (PFloat (fl_mul fl dt (Fin 0.5)))) = Some lt"
    and "l2d = truthy (conf_get conf ''l2d_action_enabled'' (PBool False))"
    and "ad = get_divergence m (conf_get conf ''divergence_metric_type'' (PStr ''belief_divergence''))"
    and "avg = avg_concept_confidence m"
  shows
    "(float_le ct ad \<longrightarrow> (\<exists>reason. choose_belief_action fl (Some conf) m =
          Inr (conf_get conf ''correction_action'' (PStr ''CorrectHuman''), reason)))
     \<and> (\<not> float_le ct ad \<and> float_lt avg cf \<longrightarrow> (\<exists>reason. choose_belief_action fl (Some conf) m =
          Inr (conf_get conf ''low_confidence_action'' (PStr ''AppendObservation''), reason)))
     \<and> (\<not> float_le ct ad \<and> \<not> float_lt avg cf \<and> l2d \<and> float_le lt ad \<longrightarrow>
          (\<exists>reason. choose_belief_action fl (Some conf) m =
          Inr (conf_get conf ''l2d_action'' (PStr ''LookToDisambiguate''), reason)))
     \<and> (\<not> float_le ct ad \<and> \<not> float_lt avg cf \<and> \<not> (l2d \<and> float_le lt ad) \<and> float_le dt ad \<longrightarrow>
          (\<exists>reason. choose_belief_action fl (Some conf) m =
          Inr (conf_get conf ''high_divergence_action'' (PStr ''AskHuman''), reason)))
     \<and> (\<not> float_le ct ad \<and> \<not> float_lt avg cf \<and> \<not> (l2d \<and> float_le lt ad) \<and> \<not> float_le dt ad \<longrightarrow>
          choose_belief_action fl (Some conf) m = Inr (PNone, note_text m))"
  unfolding choose_belief_action_resolved [OF assms(1-5) refl refl, of m]
  using assms(6-8) by simp

text \<open>With the default thresholds: confidence 0.9 and divergence 0.9 give the correction
  action; confidence 0.4 and divergence 0 give the low-confidence action.\<close>

theorem priority_order_witness:
  "(\<exists>reason. choose_belief_action sample_floats (Some Map.empty)
       \<lparr>avg_concept_confidence = double 8106479329266893 53,
        belief_divergence = double 8106479329266893 53, divergence_metrics = None,
        note_text = ''''\<rparr> = Inr (PStr ''CorrectHuman'', reason))
   \<and> (\<exists>reason. choose_belief_action sample_floats (Some Map.empty)
       \<lparr>avg_concept_confidence = double 3602879701896397 53, belief_divergence = Fin 0,
        divergence_metrics = None, note_text = ''''\<rparr> = Inr (PStr ''AppendObservation'', reason))"
proof -
  let ?hi = "\<lparr>avg_concept_confidence = double 8106479329266893 53,
        belief_divergence = double 8106479329266893 53, divergence_metrics = None,
        note_text = ''''\<rparr>"
  let ?lo = "\<lparr>avg_concept_confidence = double 3602879701896397 53, belief_divergence = Fin 0,
        divergence_metrics = None, note_text = ''''\<rparr>"
  note e = sample_empty_config
  have "\<exists>reason. choose_belief_action sample_floats (Some Map.empty) ?hi =
      Inr (PStr ''CorrectHuman'', reason)"
    using priority_order [OF e(1) e(2) e(3) e(4) e(5) refl refl refl, of ?hi]
    by (simp add: conf_get_def get_divergence_def sample_orders)
  moreover have "\<exists>reason. choose_belief_action sample_floats (Some Map.empty) ?lo =
      Inr (PStr ''AppendObservation'', reason)"
    using priority_order [OF e(1) e(2) e(3) e(4) e(5) refl refl refl, of ?lo]
    by (simp add: conf_get_def get_divergence_def sample_orders)
  ultimately show ?thesis by (rule conjI)
qed

lemma conf_get_or_default: "conf_get conf key dflt = or_default (conf key) dflt"
  by (simp add: conf_get_def or_default_def)

text \<open>
  C6. A missing option is not an error and takes its documented default. For every
  configuration, partial or empty, in which the hooks are not disabled and the
  thresholds that are given are numbers, the call returns, and it decides with each
  option as stored or, when the option is missing, with its default: 0.3 for the base
  divergence threshold, the float product of the base threshold and 1.5 for the
  correction threshold and of the base threshold and 0.5 for the L2D threshold, 0.5 for
  the confidence threshold, L2D off, the metric \<open>belief_divergence\<close> and the four default
  actions.
\<close>

theorem missing_options_take_defaults:
  assumes "truthy (or_default (conf ''cbwm_enabled'') (PBool True))"
    and "exact_float fl (or_default (conf ''divergence_threshold'') (PFloat float_0_3)) = Some dt"
    and "exact_float fl (or_default (conf ''correction_divergence_threshold'')
           (PFloat (fl_mul fl dt (Fin 1.5)))) = Some ct"
    and "exact_float fl (or_default (conf ''concept_confidence_threshold'') (PFloat (Fin 0.5)))
           = Some cf"
    and "exact_float fl (or_default (conf ''l2d_divergence_threshold'')
           (PFloat (fl_mul fl dt (Fin 0.5)))) = Some lt"
    and "mt = or_default (conf ''divergence_metric_type'') (PStr ''belief_divergence'')"
    and "ad = get_divergence m mt"
  shows "choose_belief_action fl (Some conf) m =
     Inr (if float_le ct ad then
            (or_default (conf ''correction_action'') (PStr ''CorrectHuman''),
             correction_reason (py_str fl mt) (format_2f ad) (format_2f ct))
          else if float_lt (avg_concept_confidence m) cf then
            (or_default (conf ''low_confidence_action'') (PStr ''AppendObservation''),
             low_confidence_reason (format_2f (avg_concept_confidence m)) (format_2f cf))
          else if truthy (or_default (conf ''l2d_action_enabled'') (PBool False))
                  \<and> float_le lt ad then
            (or_default (conf ''l2d_action'') (PStr ''LookToDisambiguate''),
             l2d_reason (py_str fl mt) (format_2f ad) (format_2f lt))
          else if float_le dt ad then
            (or_default (conf ''high_divergence_action'') (PStr ''AskHuman''),
             high_divergence_reason (py_str fl mt) (format_2f ad) (format_2f dt))
          else (PNone, note_text m))"
  using assms unfolding conf_get_or_default [symmetric]
  by (rule choose_belief_action_resolved)

text \<open>
  The empty configuration at divergence 0.44999999999999996, which is the float \<^verbatim>\<open>0.3 * 1.5\<close>
  and below 0.45: the correction rule fires. A configuration with the base threshold 0.4
  and L2D enabled, at divergence 0.25: the L2D threshold is \<^verbatim>\<open>0.4 * 0.5\<close>.
\<close>

theorem missing_options_take_defaults_witness:
  "truthy (or_default (Map.empty ''cbwm_enabled'') (PBool True))
   \<and> exact_float sample_floats (or_default (Map.empty ''divergence_threshold'') (PFloat float_0_3))
       = Some float_0_3
   \<and> choose_belief_action sample_floats (Some Map.empty)
        (default_metrics\<lparr>belief_divergence := double 2026619832316723 52\<rparr>) =
       Inr (PStr ''CorrectHuman'',
            ''Belief divergence (belief_divergence) 0.45 exceeds correction threshold 0.45.'')
   \<and> choose_belief_action sample_floats
        (Some [''divergence_threshold'' \<mapsto> PFloat (double 3602879701896397 53),
               ''l2d_action_enabled'' \<mapsto> PBool True])
        (default_metrics\<lparr>belief_divergence := double 1 2\<rparr>) =
       Inr (PStr ''LookToDisambiguate'',
            ''Divergence (belief_divergence) 0.25 exceeds L2D threshold 0.20.'')"
proof -
  let ?m1 = "default_metrics\<lparr>belief_divergence := double 2026619832316723 52\<rparr>"
  let ?c2 = "[''divergence_threshold'' \<mapsto> PFloat (double 3602879701896397 53),
              ''l2d_action_enabled'' \<mapsto> PBool True]"
  let ?m2 = "default_metrics\<lparr>belief_divergence := double 1 2\<rparr>"
  have e1: "truthy (or_default (Map.empty ''cbwm_enabled'') (PBool True))"
    by (simp add: or_default_def)
  have d1: "exact_float sample_floats (or_default (Map.empty ''divergence_threshold'')
      (PFloat float_0_3)) = Some float_0_3"
    by (simp add: or_default_def exact_float_PFloat)
  have c1: "exact_float sample_floats (or_default (Map.empty ''correction_divergence_threshold'')
      (PFloat (fl_mul sample_floats float_0_3 (Fin 1.5)))) = Some (double 2026619832316723 52)"
    by (simp add: or_default_def exact_float_PFloat sample_products)
  have f1: "exact_float sample_floats (or_default (Map.empty ''concept_confidence_threshold'')
      (PFloat (Fin 0.5))) = Some (Fin 0.5)"
    by (simp add: or_default_def exact_float_PFloat)
  have l1: "exact_float sample_floats (or_default (Map.empty ''l2d_divergence_threshold'')
      (PFloat (fl_mul sample_floats float_0_3 (Fin 0.5)))) = Some (double 5404319552844595 55)"
    by (simp add: or_default_def exact_float_PFloat sample_products)
  have r1: "choose_belief_action sample_floats (Some Map.empty) ?m1 =
       Inr (PStr ''CorrectHuman'',
            ''Belief divergence (belief_divergence) 0.45 exceeds correction threshold 0.45.'')"
    unfolding missing_options_take_defaults [OF e1 d1 c1 f1 l1 refl refl, of ?m1]
    by (simp add: or_default_def get_divergence_def default_metrics_def sample_orders
        correction_reason_def format_samples)
  have e2: "truthy (or_default (?c2 ''cbwm_enabled'') (PBool True))"
    by (simp add: or_default_def)
  have d2: "exact_float sample_floats (or_default (?c2 ''divergence_threshold'')
      (PFloat float_0_3)) = Some (double 3602879701896397 53)"
    by (simp add: or_default_def exact_float_PFloat)
  have c2: "exact_float sample_floats (or_default (?c2 ''correction_divergence_threshold'')
      (PFloat (fl_mul sample_floats (double 3602879701896397 53) (Fin 1.5))))
      = Some (double 1351079888211149 51)"
    by (simp add: or_default_def exact_float_PFloat sample_products)
  have f2: "exact_float sample_floats (or_default (?c2 ''concept_confidence_threshold'')
      (PFloat (Fin 0.5))) = Some (Fin 0.5)"
    by (simp add: or_default_def exact_float_PFloat)
  have l2: "exact_float sample_floats (or_default (?c2 ''l2d_divergence_threshold'')
      (PFloat (fl_mul sample_floats (double 3602879701896397 53) (Fin 0.5))))
      = Some (double 3602879701896397 54)"
    by (simp add: or_default_def exact_float_PFloat sample_products)
  have r2: "choose_belief_action sample_floats (Some ?c2) ?m2 =
       Inr (PStr ''LookToDisambiguate'',
            ''Divergence (belief_divergence) 0.25 exceeds L2D threshold 0.20.'')"
    unfolding missing_options_take_defaults [OF e2 d2 c2 f2 l2 refl refl, of ?m2]
    by (simp add: or_default_def get_divergence_def default_metrics_def sample_orders
        l2d_reason_def format_samples)
  show ?thesis
    apply (intro conjI)
       apply (rule e1)
      apply (rule d1)
     apply (rule r1)
    apply (rule r2)
    done
qed



lemma py_mul_float_Inr:
  "py_mul_float fl v c = Inr w \<longleftrightarrow> (\<exists>x. py_float fl v = Inr x \<and> w = PFloat (fl_mul fl x c))"
  by (auto simp: py_mul_float_def bind_err_def split: sum.splits)





section \<open>Properties of the concept mapping\<close>

text \<open>
  C4. For no detected type the result is two empty lists, whatever the lexicon; for a
  detected type that is in the supplied lexicon, or when none is supplied, it is the type
  with confidence 1.0; for a detected type that is not in the supplied lexicon it is the
  type and "unknown" with confidences 1.0 and 0.1; the two lists always have the same
  length.
\<close>

theorem map_detection_to_concepts_cases:
  "map_detection_to_concepts None metadata = ([], [])
   \<and> (metadata = None \<or> (\<exists>md. metadata = Some md \<and> t \<in> set (lexicon md))
        \<longrightarrow> map_detection_to_concepts (Some t) metadata = ([t], [1.0]))
   \<and> (metadata = Some md \<and> t \<notin> set (lexicon md)
        \<longrightarrow> map_detection_to_concepts (Some t) metadata = ([t, ''unknown''], [1.0, 0.1]))
   \<and> length (fst (map_detection_to_concepts detected_type metadata)) =
       length (snd (map_detection_to_concepts detected_type metadata))"
  by (auto simp: map_detection_to_concepts_def Let_def split: option.splits)

theorem map_detection_to_concepts_cases_witness:
  "map_detection_to_concepts None (Some \<lparr>lexicon = [''chair'', ''table'']\<rparr>) = ([], [])
   \<and> map_detection_to_concepts (Some ''chair'') None = ([''chair''], [1.0])
   \<and> map_detection_to_concepts (Some ''chair'') (Some \<lparr>lexicon = [''chair'', ''table'']\<rparr>)
       = ([''chair''], [1.0])
   \<and> map_detection_to_concepts (Some ''mug'') (Some \<lparr>lexicon = [''chair'', ''table'']\<rparr>)
       = ([''mug'', ''unknown''], [1.0, 0.1])"
  using
    map_detection_to_concepts_cases [of "Some \<lparr>lexicon = [''chair'', ''table'']\<rparr>" "''chair''"
      "\<lparr>lexicon = [''chair'', ''table'']\<rparr>" None]
    map_detection_to_concepts_cases [of None "''chair''"
      "\<lparr>lexicon = [''chair'', ''table'']\<rparr>" None]
    map_detection_to_concepts_cases [of "Some \<lparr>lexicon = [''chair'', ''table'']\<rparr>" "''mug''"
      "\<lparr>lexicon = [''chair'', ''table'']\<rparr>" None]
  by simp

section \<open>Properties of the concept layer\<close>

lemma fold_max_ge: "(a::nat) \<le> fold max xs a \<and> (\<forall>x \<in> set xs. x \<le> fold max xs a)"
proof (induction xs arbitrary: a)
  case Nil
  show ?case by simp
next
  case (Cons y ys)
  have "max y a \<le> fold max ys (max y a)" using Cons [of "max y a"] by simp
  then show ?case using Cons [of "max y a"] by auto
qed

lemma fresh_concept_new: "fresh_concept wg \<notin> fst ` set (graph wg)"
proof
  assume "fresh_concept wg \<in> fst ` set (graph wg)"
  then obtain adj where mem: "(fresh_concept wg, adj) \<in> set (graph wg)" by auto
  let ?k = "fold max (map (next_after \<circ> fst) (graph wg)) 0"
  have "next_after (fresh_concept wg) \<in> set (map (next_after \<circ> fst) (graph wg))"
    using mem by force
  then have "next_after (fresh_concept wg) \<le> ?k"
    using fold_max_ge [of 0 "map (next_after \<circ> fst) (graph wg)"] by blast
  then show False by (simp add: fresh_concept_def)
qed

lemma concept_nodes_of_props [simp]:
  "concept_nodes_of (wg\<lparr>concept_labels := a, concept_confidence := b\<rparr>) e = concept_nodes_of wg e"
  by (simp add: concept_nodes_of_def describes_def)

lemma concept_nodes_of_new:
  assumes "c \<notin> fst ` set (graph wg)" and "is_concept c"
  shows "concept_nodes_of (wg\<lparr>graph := graph wg @ [(c, [(e, ''describes'')])]\<rparr>) e =
         concept_nodes_of wg e @ [c]"
proof -
  have old: "describes (wg\<lparr>graph := graph wg @ [(c, [(e, ''describes'')])]\<rparr>) k e = describes wg k e"
    if "k \<in> fst ` set (graph wg)" for k
  proof -
    from that obtain adj where "map_of (graph wg) k = Some adj"
      by (metis domD dom_map_of_conv_image_fst)
    then show ?thesis by (simp add: describes_def map_add_def)
  qed
  have new: "describes (wg\<lparr>graph := graph wg @ [(c, [(e, ''describes'')])]\<rparr>) c e"
  proof -
    have "map_of (graph wg) c = None" using assms(1) by (simp add: map_of_eq_None_iff)
    then show ?thesis by (simp add: describes_def map_add_def)
  qed
  have "filter (\<lambda>k. is_concept k \<and> describes (wg\<lparr>graph := graph wg @ [(c, [(e, ''describes'')])]\<rparr>) k e)
          (map fst (graph wg)) =
        filter (\<lambda>k. is_concept k \<and> describes wg k e) (map fst (graph wg))"
    by (rule filter_cong) (auto simp: old)
  then show ?thesis using new assms(2) by (simp add: concept_nodes_of_def)
qed

lemma add_existing:
  assumes "concept_nodes_of wg e = c # cs"
  shows "add_or_update_concept_annotation wg e labels confidences =
     (c, wg\<lparr>concept_labels := (concept_labels wg)(e \<mapsto> labels),
            concept_confidence := (concept_confidence wg)(e \<mapsto> confidences)\<rparr>)"
  using assms by (simp add: add_or_update_concept_annotation_def)

lemma add_first:
  assumes "concept_nodes_of wg e = []"
  shows "add_or_update_concept_annotation wg e labels confidences =
     (fresh_concept wg,
      wg\<lparr>concept_labels := (concept_labels wg)(e \<mapsto> labels),
         concept_confidence := (concept_confidence wg)(e \<mapsto> confidences),
         graph := graph wg @ [(fresh_concept wg, [(e, ''describes'')])]\<rparr>)"
  using assms by (simp add: add_or_update_concept_annotation_def fresh_concept_def Let_def)

lemma describes_of_member:
  assumes "c \<in> set (concept_nodes_of wg e)"
  shows "is_concept c \<and> describes wg c e"
  using assms by (simp add: concept_nodes_of_def)

lemma add_once:
  assumes "length (concept_nodes_of wg e) \<le> 1"
    and "add_or_update_concept_annotation wg e labels confidences = (c, wg')"
  shows "concept_labels wg' e = Some labels \<and> concept_confidence wg' e = Some confidences
     \<and> concept_nodes_of wg' e = [c]"
proof (cases "concept_nodes_of wg e")
  case Nil
  have new: "fresh_concept wg \<notin> fst ` set (graph wg)" by (rule fresh_concept_new)
  have "concept_nodes_of (wg\<lparr>graph := graph wg @ [(fresh_concept wg, [(e, ''describes'')])]\<rparr>) e
      = [fresh_concept wg]"
    using concept_nodes_of_new [OF new, of e] Nil by (simp add: fresh_concept_def)
  moreover have "concept_nodes_of
       (wg\<lparr>concept_labels := (concept_labels wg)(e \<mapsto> labels),
           concept_confidence := (concept_confidence wg)(e \<mapsto> confidences),
           graph := graph wg @ [(fresh_concept wg, [(e, ''describes'')])]\<rparr>) e =
     concept_nodes_of (wg\<lparr>graph := graph wg @ [(fresh_concept wg, [(e, ''describes'')])]\<rparr>) e"
    by (simp add: concept_nodes_of_def describes_def)
  ultimately show ?thesis using assms(2) unfolding add_first [OF Nil] by auto
next
  case (Cons c0 cs)
  then have "cs = []" using assms(1) by simp
  then show ?thesis using assms(2) Cons unfolding add_existing [OF Cons] by auto
qed

text \<open>
  C5. In a graph with at most one Concept node for the entity, two calls on the same
  entity store exactly the labels and confidences of the second call, return the same
  Concept node, and leave exactly one Concept node for the entity, with its "describes"
  edge to it; the second call adds nothing to the graph, and with the arguments of the
  first it changes nothing at all.
\<close>

theorem annotation_overwrites_and_reuses_concept:
  assumes "length (concept_nodes_of wg e) \<le> 1"
    and "add_or_update_concept_annotation wg e labels1 confidences1 = (c1, wg1)"
    and "add_or_update_concept_annotation wg1 e labels2 confidences2 = (c2, wg2)"
  shows "concept_labels wg2 e = Some labels2 \<and> concept_confidence wg2 e = Some confidences2
     \<and> c2 = c1
     \<and> concept_nodes_of wg1 e = [c1] \<and> concept_nodes_of wg2 e = [c1]
     \<and> is_concept c1 \<and> describes wg2 c1 e
     \<and> graph wg2 = graph wg1
     \<and> (labels2 = labels1 \<and> confidences2 = confidences1 \<longrightarrow> wg2 = wg1)"
proof -
  note first = add_once [OF assms(1) assms(2)]
  then have one: "concept_nodes_of wg1 e = [c1]" by simp
  have second: "(c2, wg2) = (c1, wg1\<lparr>concept_labels := (concept_labels wg1)(e \<mapsto> labels2),
            concept_confidence := (concept_confidence wg1)(e \<mapsto> confidences2)\<rparr>)"
    using assms(3) unfolding add_existing [OF one] by simp
  then have c: "c2 = c1"
    and wg2: "wg2 = wg1\<lparr>concept_labels := (concept_labels wg1)(e \<mapsto> labels2),
            concept_confidence := (concept_confidence wg1)(e \<mapsto> confidences2)\<rparr>"
    by simp_all
  have two: "concept_nodes_of wg2 e = [c1]" using one by (simp add: wg2)
  have d: "is_concept c1 \<and> describes wg2 c1 e"
    by (rule describes_of_member) (simp add: two)
  have same: "wg2 = wg1" if "labels2 = labels1" and "confidences2 = confidences1"
  proof -
    have "(concept_labels wg1)(e \<mapsto> labels2) = concept_labels wg1"
      using first that by (simp add: fun_upd_idem)
    moreover have "(concept_confidence wg1)(e \<mapsto> confidences2) = concept_confidence wg1"
      using first that by (simp add: fun_upd_idem)
    ultimately show ?thesis by (simp add: wg2)
  qed
  show ?thesis using c one two d same by (simp add: wg2)
qed

text \<open>The test: annotate the object with confidence 0.8, then with 0.9.\<close>

theorem annotation_overwrites_and_reuses_concept_witness:
  "length (concept_nodes_of graph_with_object (Entity 0)) \<le> 1
   \<and> fst (add_or_update_concept_annotation graph_with_object (Entity 0) [''cup''] [0.8]) = Concept 0
   \<and> fst (add_or_update_concept_annotation
          (snd (add_or_update_concept_annotation graph_with_object (Entity 0) [''cup''] [0.8]))
          (Entity 0) [''cup''] [0.9]) = Concept 0
   \<and> concept_confidence (snd (add_or_update_concept_annotation
          (snd (add_or_update_concept_annotation graph_with_object (Entity 0) [''cup''] [0.8]))
          (Entity 0) [''cup''] [0.9])) (Entity 0) = Some [0.9]
   \<and> concept_nodes_of (snd (add_or_update_concept_annotation
          (snd (add_or_update_concept_annotation graph_with_object (Entity 0) [''cup''] [0.8]))
          (Entity 0) [''cup''] [0.9])) (Entity 0) = [Concept 0]"
proof -
  let ?first = "add_or_update_concept_annotation graph_with_object (Entity 0) [''cup''] [0.8]"
  let ?second = "add_or_update_concept_annotation (snd ?first) (Entity 0) [''cup''] [0.9]"
  have inv: "length (concept_nodes_of graph_with_object (Entity 0)) \<le> 1"
    by (simp add: concept_nodes_of_def graph_with_object_def)
  have c: "fst ?first = Concept 0"
    by (simp add: add_or_update_concept_annotation_def concept_nodes_of_def fresh_concept_def
        graph_with_object_def Let_def)
  have a1: "?first = (fst ?first, snd ?first)" by simp
  have a2: "?second = (fst ?second, snd ?second)" by simp
  note both = annotation_overwrites_and_reuses_concept [OF inv a1 a2]
  show ?thesis using inv c both by simp
qed

section \<open>Properties of the log reader\<close>

lemma iter_file_empty: "unread f = [] \<Longrightarrow> iter_file loads f = []"
  by (subst iter_file.simps) (simp add: next_line_def)

lemma iter_file_blank:
  "unread f = l # rest \<Longrightarrow> strip l = [] \<Longrightarrow>
   iter_file loads f = iter_file loads (f\<lparr>unread := rest\<rparr>)"
  by (subst iter_file.simps) (simp add: next_line_def)

lemma iter_file_good:
  "unread f = l # rest \<Longrightarrow> strip l \<noteq> [] \<Longrightarrow> loads (strip l) = Some r \<Longrightarrow>
   iter_file loads f = r # iter_file loads (f\<lparr>unread := rest\<rparr>)"
  by (subst iter_file.simps) (simp add: next_line_def)

text \<open>After a malformed line in a file that does not parse as a whole, nothing more is
  read from the file: the whole-file attempt has left it at its end.\<close>

lemma iter_file_malformed:
  assumes "unread f = l # rest" and "strip l \<noteq> []" and "loads (strip l) = None"
    and "loads (concat (file_lines f)) = None"
  shows "iter_file loads f = []"
proof -
  have "iter_file loads f = iter_file loads (f\<lparr>unread := []\<rparr>)"
    using assms by (subst iter_file.simps) (simp add: next_line_def read_rest_def seek_start_def)
  then show ?thesis by (simp add: iter_file_empty)
qed

lemma strip_sample:
  "strip ''{\"a\": 1}\<newline>'' = ''{\"a\": 1}''"
  "strip ''oops\<newline>'' = ''oops''"
  "strip ''{\"b\": 2}\<newline>'' = ''{\"b\": 2}''"
  by code_simp+

text \<open>No record at all is a failure of \<^verbatim>\<open>main\<close>.\<close>

lemma main_records_none:
  "files \<noteq> [] \<Longrightarrow> iter_json_records loads files = [] \<Longrightarrow>
   main_records loads files = Inl ValueError"
  by (simp add: main_records_def)

text \<open>
  C9. Stated: each malformed line is skipped, after an attempt to parse the whole file,
  and no record at all is a failure. On the log of three lines the reader yields the
  record of the first line only: the record of the third line, which parses, is lost
  with the malformed second line. And the log made of the second and third line ends in
  the failure for "no readable records", though its last line is a record.
\<close>

theorem records_after_malformed_line_lost:
  "iter_json_records sample_loads [sample_log] = [JObject [(''a'', JNumber 1)]]
   \<and> sample_loads (strip (sample_log ! 2)) = Some (JObject [(''b'', JNumber 2)])
   \<and> main_records sample_loads [tl sample_log] = Inl ValueError"
proof -
  let ?f = "open_file sample_log"
  let ?rest = "[''oops\<newline>'', ''{\"b\": 2}\<newline>'']"
  have whole: "sample_loads (concat sample_log) = None"
    "sample_loads (concat (tl sample_log)) = None"
    by (simp_all add: sample_loads_def sample_log_def)
  have bad: "sample_loads (strip ''oops\<newline>'') = None" "strip ''oops\<newline>'' \<noteq> []"
    by (simp_all add: sample_loads_def strip_sample)
  have good: "sample_loads (strip ''{\"a\": 1}\<newline>'') = Some (JObject [(''a'', JNumber 1)])"
    "strip ''{\"a\": 1}\<newline>'' \<noteq> []"
    by (simp_all add: sample_loads_def strip_sample)
  have u1: "unread ?f = ''{\"a\": 1}\<newline>'' # ?rest"
    by (simp add: open_file_def sample_log_def)
  have u2: "unread (?f\<lparr>unread := ?rest\<rparr>) = ''oops\<newline>'' # [''{\"b\": 2}\<newline>'']"
    by simp
  have u3: "unread (open_file (tl sample_log)) = ''oops\<newline>'' # [''{\"b\": 2}\<newline>'']"
    by (simp add: open_file_def sample_log_def)
  have "iter_file sample_loads (?f\<lparr>unread := ?rest\<rparr>) = []"
    by (rule iter_file_malformed [where loads = sample_loads, OF u2 bad(2) bad(1)]) (simp add: open_file_def whole)
  then have "iter_file sample_loads ?f = [JObject [(''a'', JNumber 1)]]"
    by (simp add: iter_file_good [where loads = sample_loads, OF u1 good(2) good(1)])
  then have one: "iter_json_records sample_loads [sample_log] = [JObject [(''a'', JNumber 1)]]"
    by (simp add: iter_json_records_def)
  have "iter_file sample_loads (open_file (tl sample_log)) = []"
    by (rule iter_file_malformed [where loads = sample_loads, OF u3 bad(2) bad(1)]) (simp add: open_file_def whole)
  then have none: "main_records sample_loads [tl sample_log] = Inl ValueError"
    by (simp add: main_records_def iter_json_records_def)
  have third: "sample_loads (strip (sample_log ! 2)) = Some (JObject [(''b'', JNumber 2)])"
    by (simp add: sample_log_def strip_sample sample_loads_def)
  from one third none show ?thesis by simp
qed

end
